theory Spec2Isabelle
  imports Complex_Main
begin

section \<open>EcoSim island renderer: elevation, tiles, decorations, shading state\<close>

text \<open>
  A shallow embedding of the CPU-side generation code of
  \<^verbatim>\<open>frontend/src/components/Island.tsx\<close> (Island, TileHex, Terrain) and
  \<^verbatim>\<open>frontend/src/components/EcosystemViewport.tsx\<close> (Water, both variants).

  A TypeScript \<^verbatim>\<open>number\<close> is modelled as a \<^typ>\<open>real\<close>: arithmetic is exact, and the
  IEEE values NaN and Infinity do not exist. Where a NaN matters, the number is a
  \<^typ>\<open>real option\<close> with \<^term>\<open>None\<close> for NaN: the elevation, which is NaN after a
  division by a zero grid size, and the \<^verbatim>\<open>ecosystemHealth\<close> handed to \<^verbatim>\<open>Water\<close>.
  Grid coordinates and the grid size are integers, as the simulation supplies them.
\<close>

subsection \<open>ElevationModel: \<^verbatim>\<open>getIslandElevation\<close>\<close>

text \<open>The local \<^verbatim>\<open>islandMask = Math.max(0, 1 - distFromCenter * 1.2)\<close>.\<close>

definition islandMask :: "real \<Rightarrow> real" where
  "islandMask distFromCenter = max 0 (1 - distFromCenter * 1.2)"

text \<open>
  \<^verbatim>\<open>getIslandElevation(x, y, gridSize, noise2D)\<close>. The noise generator of the
  simplex-noise library is a parameter. With \<^verbatim>\<open>gridSize = 0\<close> the source divides
  by zero: a zero coordinate gives 0/0 = NaN, which reaches the result
  (\<^verbatim>\<open>Math.max(0, NaN)\<close> is NaN), written \<^term>\<open>None\<close> here; two non-zero coordinates
  give an infinite distance, mask 0 and elevation 0.
\<close>

definition getIslandElevation ::
  "real \<Rightarrow> real \<Rightarrow> real \<Rightarrow> (real \<Rightarrow> real \<Rightarrow> real) \<Rightarrow> real option" where
  "getIslandElevation x y gridSize noise2D =
     (if gridSize = 0 then (if x = 0 \<or> y = 0 then None else Some 0)
      else
        let nx = (x / gridSize) * 2 - 1;
            ny = (y / gridSize) * 2 - 1;
            distFromCenter = sqrt (nx * nx + ny * ny);
            mask = islandMask distFromCenter;
            noiseValue = (noise2D (x * 0.3) (y * 0.3) + 1) / 2;
            elevation = mask * mask * (0.5 + noiseValue * 0.5)
        in Some elevation)"

subsection \<open>Tiles and the memoised elevation map\<close>

text \<open>
  Modelled from the spec: the \<^verbatim>\<open>Tile\<close> type is declared in \<^verbatim>\<open>../types\<close>, which is
  not among the sources. The spec gives a tile as \<^verbatim>\<open>{x:int, y:int, biome:enum}\<close>; the
  biome stays a string, since the source compares it with string literals and uses it
  as a key of \<^verbatim>\<open>BIOME_COLORS\<close>.
\<close>

record Tile =
  tile_x :: int
  tile_y :: int
  biome :: string

text \<open>
  The \<^verbatim>\<open>Map<string, number>\<close> built in \<^verbatim>\<open>tileElevations\<close>. Its key
  \<^verbatim>\<open>`${tile.x}-${tile.y}`\<close> determines the two integers, so the key is the pair. A stored
  value is a number, \<^term>\<open>None\<close> standing for NaN.
\<close>

type_synonym elevations = "int \<times> int \<Rightarrow> real option option"

definition tileElevations ::
  "Tile list \<Rightarrow> int \<Rightarrow> (real \<Rightarrow> real \<Rightarrow> real) \<Rightarrow> elevations" where
  "tileElevations tiles gridSize noise2D =
     foldl (\<lambda>elevations t.
              elevations((tile_x t, tile_y t) \<mapsto>
                getIslandElevation (of_int (tile_x t)) (of_int (tile_y t))
                  (of_int gridSize) noise2D))
           (\<lambda>key. None) tiles"

text \<open>
  \<^verbatim>\<open>tileElevations.get(`${tile.x}-${tile.y}`) || 0\<close>: a missing key (undefined), NaN and
  0 are all falsy and give 0.
\<close>

definition elevationOf :: "elevations \<Rightarrow> Tile \<Rightarrow> real" where
  "elevationOf elevations t =
     (case elevations (tile_x t, tile_y t) of
        Some (Some e) \<Rightarrow> e
      | _ \<Rightarrow> 0)"

subsection \<open>TileRenderer: \<^verbatim>\<open>TileHex\<close> and the tile loop of \<^verbatim>\<open>Island\<close>\<close>

text \<open>
  The value of a property read \<^verbatim>\<open>BIOME_COLORS[name]\<close>: a colour string,
  \<^verbatim>\<open>undefined\<close>, or a member inherited from \<^verbatim>\<open>Object.prototype\<close> (a function, or the
  prototype itself for \<^verbatim>\<open>__proto__\<close>), which is neither a string nor \<^verbatim>\<open>undefined\<close>.
\<close>

datatype js_value = Undefined | Str string | Inherited string

text \<open>The property names every plain JavaScript object inherits from \<^verbatim>\<open>Object.prototype\<close>.\<close>

definition Object_prototype_properties :: "string list" where
  "Object_prototype_properties =
     [''constructor'', ''hasOwnProperty'', ''isPrototypeOf'', ''propertyIsEnumerable'',
      ''toLocaleString'', ''toString'', ''valueOf'', ''__proto__'',
      ''__defineGetter__'', ''__defineSetter__'', ''__lookupGetter__'', ''__lookupSetter__'']"

text \<open>
  \<^verbatim>\<open>BIOME_COLORS\<close> is imported from \<^verbatim>\<open>../types\<close> and is a parameter: a plain object,
  given by the list of its own properties, biome names with their colour strings. The
  read \<^verbatim>\<open>BIOME_COLORS[name]\<close> finds an own property first, then a member of
  \<^verbatim>\<open>Object.prototype\<close>, and is \<^verbatim>\<open>undefined\<close> otherwise; it never throws.
\<close>

definition property :: "(string \<times> string) list \<Rightarrow> string \<Rightarrow> js_value" where
  "property obj name =
     (case map_of obj name of
        Some c \<Rightarrow> Str c
      | None \<Rightarrow> if name \<in> set Object_prototype_properties then Inherited name else Undefined)"

text \<open>
  The mesh element \<^verbatim>\<open>TileHex\<close> returns: its position, the arguments of
  \<^verbatim>\<open>cylinderGeometry\<close>, the material's colour and opacity, and the colour of the edges.
\<close>

record mesh =
  mesh_position :: "real \<times> real \<times> real"
  radiusTop :: real
  radiusBottom :: real
  geometry_height :: real
  radialSegments :: nat
  material_color :: js_value
  material_opacity :: real
  edges_color :: string

definition TileHex :: "(string \<times> string) list \<Rightarrow> Tile \<Rightarrow> real \<Rightarrow> int \<Rightarrow> bool \<Rightarrow> mesh" where
  "TileHex BIOME_COLORS t elevation gridSize isSelected =
     (let color = property BIOME_COLORS (biome t);
          offset = of_int gridSize / 2 - 0.5;
          height = 0.1 + elevation * 1.5
      in \<lparr>mesh_position = (of_int (tile_x t) - offset, height / 2, of_int (tile_y t) - offset),
          radiusTop = 0.52, radiusBottom = 0.55, geometry_height = height, radialSegments = 6,
          material_color = (if isSelected then Str ''#ffffff'' else color),
          material_opacity = 0.9,
          edges_color = (if isSelected then ''#00ffff'' else ''#ffffff'')\<rparr>)"

text \<open>\<^verbatim>\<open>selectedTile?.[0] === tile.x && selectedTile?.[1] === tile.y\<close>\<close>

definition isSelected :: "(int \<times> int) option \<Rightarrow> Tile \<Rightarrow> bool" where
  "isSelected selectedTile t =
     (case selectedTile of
        None \<Rightarrow> False
      | Some (sx, sy) \<Rightarrow> sx = tile_x t \<and> sy = tile_y t)"

text \<open>The callback of \<^verbatim>\<open>tiles.map\<close>: \<^term>\<open>None\<close> is the \<^verbatim>\<open>null\<close> of a culled tile.\<close>

definition Island_tile ::
  "(string \<times> string) list \<Rightarrow> int \<Rightarrow> elevations \<Rightarrow> (int \<times> int) option \<Rightarrow> Tile \<Rightarrow> mesh option" where
  "Island_tile BIOME_COLORS gridSize elevations selectedTile t =
     (let elevation = elevationOf elevations t
      in if elevation < 0.08 then None
         else Some (TileHex BIOME_COLORS t elevation gridSize (isSelected selectedTile t)))"

definition Island_tiles ::
  "(string \<times> string) list \<Rightarrow> Tile list \<Rightarrow> int \<Rightarrow> elevations \<Rightarrow> (int \<times> int) option
     \<Rightarrow> mesh option list" where
  "Island_tiles BIOME_COLORS tiles gridSize elevations selectedTile =
     map (Island_tile BIOME_COLORS gridSize elevations selectedTile) tiles"


subsection \<open>DecorationPlacer: the \<^verbatim>\<open>props\<close> memo of \<^verbatim>\<open>Island\<close>\<close>

datatype item_type = Tree | Rock | Mountain

record item =
  item_type :: item_type
  item_position :: "real \<times> real \<times> real"
  item_scale :: real

text \<open>
  \<^verbatim>\<open>Math.random()\<close> is a sequence \<open>random\<close> of numbers; the state carries the number
  \<open>k\<close> of values drawn so far, next to the \<^verbatim>\<open>items\<close> pushed so far. A call returns
  \<open>random k\<close> and moves to \<open>k + 1\<close>.
\<close>

type_synonym placer_state = "item list \<times> nat"

text \<open>
  The loop \<^verbatim>\<open>for (let i = 0; i < treeCount; i++)\<close>, by the number of rounds left. A round
  draws the x jitter, the z jitter and the scale, in this order.
\<close>

fun push_trees :: "(nat \<Rightarrow> real) \<Rightarrow> real \<Rightarrow> real \<Rightarrow> real \<Rightarrow> nat \<Rightarrow> placer_state \<Rightarrow> placer_state" where
  "push_trees random baseX baseHeight baseZ 0 st = st"
| "push_trees random baseX baseHeight baseZ (Suc n) (items, k) =
     push_trees random baseX baseHeight baseZ n
       (items @ [\<lparr>item_type = Tree,
                  item_position = (baseX + (random k - 0.5) * 0.4,
                                   baseHeight,
                                   baseZ + (random (k + 1) - 0.5) * 0.4),
                  item_scale = 0.7 + random (k + 2) * 0.4\<rparr>],
        k + 3)"

text \<open>The callback of \<^verbatim>\<open>tiles.forEach\<close> in \<^verbatim>\<open>props\<close>.\<close>

definition props_tile ::
  "int \<Rightarrow> elevations \<Rightarrow> (nat \<Rightarrow> real) \<Rightarrow> Tile \<Rightarrow> placer_state \<Rightarrow> placer_state" where
  "props_tile gridSize elevations random t st =
     (let (items, k) = st;
          offset = of_int gridSize / 2 - 0.5;
          elevation = elevationOf elevations t
      in if elevation < 0.15 then st
         else
           let baseHeight = 0.1 + elevation * 1.5;
               baseX = of_int (tile_x t) - offset;
               baseZ = of_int (tile_y t) - offset
           in if biome t = ''forest'' then
                let treeCount = 1 + \<lfloor>random k * 2\<rfloor>
                in push_trees random baseX baseHeight baseZ (nat treeCount) (items, k + 1)
              else if biome t = ''mountain'' then
                (items @ [\<lparr>item_type = Mountain,
                           item_position = (baseX, baseHeight, baseZ),
                           item_scale = 0.8 + random k * 0.4\<rparr>],
                 k + 1)
              else if biome t = ''grassland'' then
                (if random k > 0.7 then
                   (items @ [\<lparr>item_type = Rock,
                              item_position = (baseX + (random (k + 1) - 0.5) * 0.3,
                                               baseHeight,
                                               baseZ + (random (k + 2) - 0.5) * 0.3),
                              item_scale = 0.5 + random (k + 3) * 0.5\<rparr>],
                    k + 4)
                 else (items, k + 1))
              else st)"

text \<open>
  A tile is decoration-eligible when the callback does not return at its guard
  \<^verbatim>\<open>if (elevation < 0.15) return\<close>.
\<close>

definition decorationEligible :: "elevations \<Rightarrow> Tile \<Rightarrow> bool" where
  "decorationEligible elevations t \<longleftrightarrow> \<not> elevationOf elevations t < 0.15"

definition props :: "Tile list \<Rightarrow> int \<Rightarrow> elevations \<Rightarrow> (nat \<Rightarrow> real) \<Rightarrow> item list" where
  "props tiles gridSize elevations random =
     fst (foldl (\<lambda>st t. props_tile gridSize elevations random t st) ([], 0) tiles)"

text \<open>The items the callback adds for one tile, whatever was pushed before.\<close>

definition emitted :: "int \<Rightarrow> elevations \<Rightarrow> (nat \<Rightarrow> real) \<Rightarrow> Tile \<Rightarrow> nat \<Rightarrow> item list" where
  "emitted gridSize elevations random t k =
     fst (props_tile gridSize elevations random t ([], k))"


subsection \<open>The decoration components \<^verbatim>\<open>Tree\<close>, \<^verbatim>\<open>Rock\<close> and \<^verbatim>\<open>MountainPeak\<close>\<close>











subsection \<open>Terrain: the \<^verbatim>\<open>ecosystemState\<close> memo\<close>

text \<open>
  Modelled from the spec: the \<^verbatim>\<open>Species\<close> type is declared in \<^verbatim>\<open>../types\<close>, which
  is not among the sources. The spec gives a species as \<^verbatim>\<open>{diet:enum, population:int}\<close>;
  the diet stays a string, since the source compares it with \<^verbatim>\<open>'producer'\<close>.
\<close>

record Species =
  diet :: string
  population :: int

record ecosystem_state =
  vegetationHealth :: real
  seasonTint :: "real \<times> real \<times> real"

text \<open>The \<^verbatim>\<open>switch (season)\<close>.\<close>

definition seasonTint_of :: "string \<Rightarrow> real \<times> real \<times> real" where
  "seasonTint_of season =
     (if season = ''winter'' then (0.9, 0.95, 1.1)
      else if season = ''spring'' then (0.95, 1.1, 0.95)
      else if season = ''summer'' then (1.1, 1.05, 0.9)
      else if season = ''fall'' then (1.15, 0.95, 0.8)
      else (1.0, 1.0, 1.0))"

text \<open>
  \<^verbatim>\<open>ecosystemState\<close>, from the species list and the season. The guard
  \<^verbatim>\<open>!species || species.length === 0\<close> returns before any population is read.
\<close>

definition ecosystemState :: "Species list \<Rightarrow> string \<Rightarrow> ecosystem_state" where
  "ecosystemState species season =
     (if species = [] then \<lparr>vegetationHealth = 1.0, seasonTint = (1.0, 1.0, 1.0)\<rparr>
      else
        let plants = filter (\<lambda>s. diet s = ''producer'') species;
            totalPlants = foldl (\<lambda>sum s. sum + population s) 0 plants;
            vegetationHealth = min 1.0 (of_int totalPlants / 10000)
        in \<lparr>vegetationHealth = vegetationHealth, seasonTint = seasonTint_of season\<rparr>)"

text \<open>
  The value of the \<^verbatim>\<open>vegetationHealth\<close> uniform of the terrain's shader material: the
  material is built with \<^verbatim>\<open>ecosystemState.vegetationHealth\<close> and the effect writes the
  same value again.
\<close>

definition uniform_vegetationHealth :: "Species list \<Rightarrow> string \<Rightarrow> real" where
  "uniform_vegetationHealth species season = vegetationHealth (ecosystemState species season)"

text \<open>
  The quantity the spec names: the sum of the populations of the species whose diet is
  \<^verbatim>\<open>'producer'\<close>.
\<close>

definition totalProducerPopulation :: "Species list \<Rightarrow> int" where
  "totalProducerPopulation species =
     sum_list (map population (filter (\<lambda>s. diet s = ''producer'') species))"

subsection \<open>Water: the \<^verbatim>\<open>colors\<close> memo of the health-aware variant\<close>

text \<open>
  A \<^verbatim>\<open>THREE.Color\<close> value, as the expression of library calls that builds it:
  \<^verbatim>\<open>new THREE.Color(hex)\<close>, and \<^verbatim>\<open>a.clone().lerp(b, alpha)\<close>, which moves every channel
  of \<open>a\<close> towards \<open>b\<close> by the factor \<open>alpha\<close>.
\<close>

datatype three_color = Color string | Lerp three_color three_color "real option"


record water_colors =
  color :: three_color
  deepColor :: three_color
  foamColor :: three_color
  opacity :: "real option"



subsection \<open>WaterShader: the vertex stage of both variants\<close>

text \<open>
  The vertex shader of the health-aware \<^verbatim>\<open>WaterMaterial\<close>: the displaced position
  \<^verbatim>\<open>pos\<close>, whose third component is also the varying \<^verbatim>\<open>vElevation\<close>. GLSL floats are
  reals here.
\<close>

definition WaterMaterial_vertex :: "real \<times> real \<times> real \<Rightarrow> real \<Rightarrow> real \<times> real \<times> real" where
  "WaterMaterial_vertex position uTime =
     (let (pos_x, pos_y, pos_z) = position;
          wave1 = sin (pos_x * 2.0 + uTime * 0.5) * 0.05;
          wave2 = sin (pos_y * 3.0 + uTime * 0.7) * 0.03;
          wave3 = sin ((pos_x + pos_y) * 1.5 + uTime * 0.3) * 0.04
      in (pos_x, pos_y, pos_z + (wave1 + wave2 + wave3)))"

text \<open>The vertex shader of the dark \<^verbatim>\<open>WaterMaterial\<close>.\<close>

definition WaterMaterial_dark_vertex :: "real \<times> real \<times> real \<Rightarrow> real \<Rightarrow> real \<times> real \<times> real" where
  "WaterMaterial_dark_vertex position uTime =
     (let (pos_x, pos_y, pos_z) = position;
          wave1 = sin (pos_x * 2.0 + uTime * 0.5) * 0.05;
          wave2 = sin (pos_y * 3.0 + uTime * 0.7) * 0.03;
          wave3 = sin ((pos_x + pos_y) * 1.5 + uTime * 0.3) * 0.04
      in (pos_x, pos_y, pos_z + (wave1 + wave2 + wave3)))"

text \<open>
  The displacement a vertex shader adds to a vertex of the water plane, whose
  \<^verbatim>\<open>planeGeometry\<close> lies at \<open>z = 0\<close>: the value of \<^verbatim>\<open>vElevation\<close> there.
\<close>

definition displacement ::
  "(real \<times> real \<times> real \<Rightarrow> real \<Rightarrow> real \<times> real \<times> real) \<Rightarrow> real \<Rightarrow> real \<Rightarrow> real \<Rightarrow> real" where
  "displacement vertex x y t = snd (snd (vertex (x, y, 0) t))"

subsection \<open>Water: the uniforms\<close>

text \<open>
  The uniforms the \<^verbatim>\<open>useFrame\<close> callback of \<^verbatim>\<open>Water\<close> writes, once the material is
  mounted.
\<close>

record water_uniforms =
  uTime :: real
  uColor :: three_color
  uDeepColor :: three_color
  uFoamColor :: three_color
  uOpacity :: "real option"


subsection \<open>Concrete inputs for the examples\<close>

text \<open>
  Modelled from the spec: \<^verbatim>\<open>BIOME_COLORS\<close> is declared in \<^verbatim>\<open>../types\<close>, which is not
  among the sources. The spec names the biomes water, beach, grassland, forest and
  mountain, each with a fixed display colour, and does not give the colours: the
  colour strings below stand for them, and only the set of keys matters.
\<close>

definition spec_BIOME_COLORS :: "(string \<times> string) list" where
  "spec_BIOME_COLORS =
     [(''water'', ''#0000ff''), (''beach'', ''#ffff00''), (''grassland'', ''#00ff00''),
      (''forest'', ''#008000''), (''mountain'', ''#808080'')]"

text \<open>A noise field that returns the same sample everywhere.\<close>

definition constant_noise :: "real \<Rightarrow> real \<Rightarrow> real \<Rightarrow> real" where
  "constant_noise n = (\<lambda>u v. n)"

text \<open>A run of \<^verbatim>\<open>Math.random()\<close> that returns the same number at every call.\<close>

definition constant_random :: "real \<Rightarrow> nat \<Rightarrow> real" where
  "constant_random r = (\<lambda>i. r)"

subsection \<open>Properties of the elevation model\<close>

lemma islandMask_nonneg: "0 \<le> islandMask d"
  by (simp add: islandMask_def)

lemma islandMask_antimono: "d1 \<le> d2 \<Longrightarrow> islandMask d2 \<le> islandMask d1"
  by (simp add: islandMask_def max_def)

lemma islandMask_le_one: "0 \<le> d \<Longrightarrow> islandMask d \<le> 1"
  by (simp add: islandMask_def)

lemma islandMask_strict: "d1 < d2 \<Longrightarrow> 0 < islandMask d1 \<Longrightarrow> islandMask d2 < islandMask d1"
  by (simp add: islandMask_def max_def split: if_splits)

text \<open>
  Claim C5. For integer coordinates \<open>x\<close>, \<open>y\<close>, a grid size \<open>gridSize > 0\<close> and a
  noise sample \<open>n\<close> in \<open>[-1, 1]\<close> at \<open>(x * 0.3, y * 0.3)\<close>: with
  \<open>nx = 2 * (x / gridSize) - 1\<close>, \<open>ny = 2 * (y / gridSize) - 1\<close>,
  \<open>d = sqrt (nx\<^sup>2 + ny\<^sup>2)\<close>, \<open>m = max 0 (1 - d * 1.2)\<close> and \<open>noise = (n + 1) / 2\<close>,
  the elevation function returns exactly \<open>m\<^sup>2 * (0.5 + 0.5 * noise)\<close>. (Exactly, in
  real arithmetic: floating-point rounding is not part of the model.)
\<close>

theorem getIslandElevation_formula:
  fixes x y gridSize :: int and noise2D :: "real \<Rightarrow> real \<Rightarrow> real"
  assumes "gridSize > 0"
    and "n = noise2D (of_int x * 0.3) (of_int y * 0.3)"
    and "-1 \<le> n" and "n \<le> 1"
    and "nx = 2 * (of_int x / of_int gridSize) - 1"
    and "ny = 2 * (of_int y / of_int gridSize) - 1"
    and "d = sqrt (nx\<^sup>2 + ny\<^sup>2)"
    and "m = max 0 (1 - d * 1.2)"
    and "noise = (n + 1) / 2"
  shows "getIslandElevation (of_int x) (of_int y) (of_int gridSize) noise2D
           = Some (m\<^sup>2 * (0.5 + 0.5 * noise))"
  using assms
  by (simp add: getIslandElevation_def islandMask_def Let_def power2_eq_square mult.commute)

theorem getIslandElevation_formula_witness:
  "(8::int) > 0 \<and> - 1 \<le> constant_noise 0 (of_int 4 * 0.3) (of_int 4 * 0.3)
   \<and> constant_noise 0 (of_int 4 * 0.3) (of_int 4 * 0.3) \<le> 1
   \<and> getIslandElevation (of_int 4) (of_int 4) (of_int 8) (constant_noise 0)
       = Some ((max 0 (1 - sqrt 0 * 1.2))\<^sup>2 * (0.5 + 0.5 * ((0 + 1) / 2)))"
  using getIslandElevation_formula [of 8 0 "constant_noise 0" 4 4 0 0 "sqrt 0"
      "max 0 (1 - sqrt 0 * 1.2)" "(0 + 1) / 2"]
  by (simp add: constant_noise_def)

lemma elevation_center:
  assumes "gridSize \<noteq> 0" "2 * xc = gridSize" "2 * yc = gridSize"
  shows "getIslandElevation xc yc gridSize noise2D
           = Some (0.5 + ((noise2D (xc * 0.3) (yc * 0.3) + 1) / 2) * 0.5)"
proof -
  have "xc / gridSize * 2 - 1 = 0" "yc / gridSize * 2 - 1 = 0"
    using assms by (auto simp: field_simps)
  then show ?thesis
    using assms(1) by (simp add: getIslandElevation_def islandMask_def Let_def)
qed

lemma masked_le_factor:
  assumes "0 \<le> d" "0 \<le> f"
  shows "islandMask d * islandMask d * f \<le> f"
proof -
  have "0 \<le> islandMask d" by (rule islandMask_nonneg)
  moreover have "islandMask d \<le> 1" using assms(1) by (rule islandMask_le_one)
  ultimately have "islandMask d * islandMask d \<le> 1 * 1"
    by (intro mult_mono) simp_all
  then have "islandMask d * islandMask d * f \<le> 1 * f"
    using assms(2) by (intro mult_right_mono) simp_all
  then show ?thesis by simp
qed

lemma elevation_le_center:
  fixes x y xc yc gridSize n :: real
  assumes g: "gridSize > 0" and c: "2 * xc = gridSize" "2 * yc = gridSize"
    and n: "noise2D (xc * 0.3) (yc * 0.3) = n" "noise2D (x * 0.3) (y * 0.3) = n"
    and r: "-1 \<le> n" "n \<le> 1"
  shows "\<exists>e ec. getIslandElevation x y gridSize noise2D = Some e
            \<and> getIslandElevation xc yc gridSize noise2D = Some ec \<and> e \<le> ec"
proof -
  let ?f = "0.5 + ((n + 1) / 2) * 0.5"
  let ?d = "sqrt ((x / gridSize * 2 - 1) * (x / gridSize * 2 - 1)
                 + (y / gridSize * 2 - 1) * (y / gridSize * 2 - 1))"
  have f: "0 \<le> ?f" using r by simp
  have ec: "getIslandElevation xc yc gridSize noise2D = Some ?f"
    using elevation_center [of gridSize xc yc noise2D] g c n by simp
  have e: "getIslandElevation x y gridSize noise2D = Some (islandMask ?d * islandMask ?d * ?f)"
    using g n by (simp add: getIslandElevation_def Let_def)
  have "islandMask ?d * islandMask ?d * ?f \<le> ?f"
    by (rule masked_le_factor [OF _ f]) simp
  with e ec show ?thesis by blast
qed

text \<open>
  Claim C6, as stated: increasing the radial distance strictly decreases the island
  mask. It does not: the mask is cut off at 0, so from \<open>d = 5/6\<close> on it stays 0. The
  distances 1 and 2 give the same mask.
\<close>

theorem islandMask_strict_counterexample:
  "(1::real) < 2 \<and> islandMask 1 = 0 \<and> islandMask 2 = 0 \<and> \<not> islandMask 2 < islandMask 1"
  by (simp add: islandMask_def)

text \<open>
  Claim C6, amended. Increasing the radial distance never increases the island mask,
  and strictly decreases it as long as the mask is positive. Therefore, for a grid size
  \<open>gridSize > 0\<close> and one noise value \<open>n\<close> in \<open>[-1, 1]\<close> sampled at both points, the
  elevation at the exact centre (\<open>nx = ny = 0\<close>, that is \<open>2 * xc = 2 * yc = gridSize\<close>)
  is at least the elevation at any other point \<open>(x, y)\<close>, a far corner included.
\<close>

theorem islandMask_monotone_center_highest:
  fixes d1 d2 x y xc yc gridSize n :: real
  shows "(d1 \<le> d2 \<longrightarrow> islandMask d2 \<le> islandMask d1)
    \<and> (d1 < d2 \<and> 0 < islandMask d1 \<longrightarrow> islandMask d2 < islandMask d1)
    \<and> (gridSize > 0 \<and> 2 * xc = gridSize \<and> 2 * yc = gridSize
         \<and> noise2D (xc * 0.3) (yc * 0.3) = n \<and> noise2D (x * 0.3) (y * 0.3) = n
         \<and> -1 \<le> n \<and> n \<le> 1
       \<longrightarrow> (\<exists>e ec. getIslandElevation x y gridSize noise2D = Some e
              \<and> getIslandElevation xc yc gridSize noise2D = Some ec \<and> e \<le> ec))"
  using islandMask_antimono [of d1 d2] islandMask_strict [of d1 d2]
    elevation_le_center [of gridSize xc yc noise2D n x y]
  by blast

theorem islandMask_monotone_center_highest_witness:
  "(0::real) \<le> 1 / 2 \<and> islandMask (1 / 2) \<le> islandMask 0
   \<and> (0::real) < 1 / 2 \<and> 0 < islandMask 0 \<and> islandMask (1 / 2) < islandMask 0
   \<and> (8::real) > 0 \<and> 2 * 4 = (8::real) \<and> - 1 \<le> (0::real) \<and> (0::real) \<le> 1
   \<and> getIslandElevation 0 0 8 (constant_noise 0) = Some 0
   \<and> getIslandElevation 4 4 8 (constant_noise 0) = Some (3 / 4)"
proof -
  have m: "islandMask (sqrt 2) = 0"
  proof -
    have "1 \<le> sqrt 2" by simp
    then have "1 - sqrt 2 * 1.2 \<le> 0" by arith
    then show ?thesis unfolding islandMask_def by (rule max_absorb1)
  qed
  have c: "getIslandElevation 4 4 8 (constant_noise 0) = Some (3 / 4)"
    by (simp add: getIslandElevation_def islandMask_def constant_noise_def)
  have k: "getIslandElevation 0 0 8 (constant_noise 0) = Some 0"
    using m by (simp add: getIslandElevation_def constant_noise_def)
  show ?thesis
    using islandMask_monotone_center_highest [of 0 "1 / 2" 8 4 4 "constant_noise 0" 0 0 0] c k
    by (simp add: islandMask_def)
qed

subsection \<open>The elevation map\<close>

text \<open>
  For a tile of the list, the map holds the value of \<^const>\<open>getIslandElevation\<close> at its
  coordinates: a later tile with the same coordinates stores the same number again.
\<close>

lemma tileElevations_lookup:
  "t \<in> set tiles \<Longrightarrow>
     tileElevations tiles gridSize noise2D (tile_x t, tile_y t)
       = Some (getIslandElevation (of_int (tile_x t)) (of_int (tile_y t))
                 (of_int gridSize) noise2D)"
  unfolding tileElevations_def
proof (induction tiles rule: rev_induct)
  case Nil
  then show ?case by simp
next
  case (snoc u us)
  then show ?case by (cases "(tile_x u, tile_y u) = (tile_x t, tile_y t)") auto
qed

subsection \<open>Vegetation health\<close>

lemma foldl_population:
  "foldl (\<lambda>sum s. sum + population s) a xs = a + sum_list (map population xs)"
  by (induction xs arbitrary: a) simp_all

lemma vegetationHealth_nonempty:
  "species \<noteq> [] \<Longrightarrow>
     uniform_vegetationHealth species season
       = min 1 (of_int (totalProducerPopulation species) / 10000)"
  by (simp add: uniform_vegetationHealth_def ecosystemState_def totalProducerPopulation_def
      foldl_population Let_def)



text \<open>
  Claim C1, as stated: for every species list the \<^verbatim>\<open>vegetationHealth\<close> fed to the
  terrain shader is \<open>min 1 (totalProducerPopulation / 10000)\<close>. The empty list has no
  producers, so the formula gives 0, but the guard on the empty list returns 1.
\<close>

theorem vegetationHealth_empty_counterexample:
  "uniform_vegetationHealth [] ''spring'' = 1 \<and>
   min 1 (real_of_int (totalProducerPopulation []) / 10000) = 0"
  by (simp add: uniform_vegetationHealth_def ecosystemState_def totalProducerPopulation_def)

text \<open>
  Claim C1, amended. For every non-empty species list the \<^verbatim>\<open>vegetationHealth\<close> fed to
  the terrain shader equals \<open>min 1 (totalProducerPopulation / 10000)\<close>, the sum taken
  over the species whose diet is \<^verbatim>\<open>'producer'\<close>; in particular a non-empty list with
  no producers yields 0. For the empty list it is 1.
\<close>

theorem vegetationHealth_value:
  "(species \<noteq> [] \<longrightarrow>
      uniform_vegetationHealth species season
        = min 1 (of_int (totalProducerPopulation species) / 10000))
   \<and> (species \<noteq> [] \<and> filter (\<lambda>s. diet s = ''producer'') species = []
        \<longrightarrow> uniform_vegetationHealth species season = 0)
   \<and> (species = [] \<longrightarrow> uniform_vegetationHealth species season = 1)"
  by (simp add: vegetationHealth_nonempty)
     (simp add: uniform_vegetationHealth_def ecosystemState_def totalProducerPopulation_def)

theorem vegetationHealth_value_witness:
  "[\<lparr>diet = ''producer'', population = 2500\<rparr>, \<lparr>diet = ''herbivore'', population = 900\<rparr>] \<noteq> []
   \<and> uniform_vegetationHealth
        [\<lparr>diet = ''producer'', population = 2500\<rparr>, \<lparr>diet = ''herbivore'', population = 900\<rparr>]
        ''fall'' = 1 / 4
   \<and> uniform_vegetationHealth [\<lparr>diet = ''herbivore'', population = 900\<rparr>] ''fall'' = 0
   \<and> uniform_vegetationHealth [] ''fall'' = 1"
  using vegetationHealth_value
      [of "[\<lparr>diet = ''producer'', population = 2500\<rparr>, \<lparr>diet = ''herbivore'', population = 900\<rparr>]"
          "''fall''"]
    vegetationHealth_value [of "[\<lparr>diet = ''herbivore'', population = 900\<rparr>]" "''fall''"]
    vegetationHealth_value [of "[]" "''fall''"]
  by (simp add: totalProducerPopulation_def)

subsection \<open>Health scalars and clamping\<close>





subsection \<open>TileRenderer\<close>


lemma property_not_own:
  "name \<notin> fst ` set obj \<Longrightarrow>
     property obj name
       = (if name \<in> set Object_prototype_properties then Inherited name else Undefined)"
  by (simp add: property_def map_of_eq_None_iff [THEN iffD2])

text \<open>
  Claim C3, as stated: a tile whose biome lies outside the known enumeration gets an
  explicit, designated fallback colour. The lookup \<^verbatim>\<open>BIOME_COLORS[tile.biome]\<close> has no
  fallback: for the biome \<^verbatim>\<open>'lava'\<close>, which the table does not hold, the colour handed to
  the material is \<^verbatim>\<open>undefined\<close>.
\<close>

theorem TileHex_unknown_biome_counterexample:
  "material_color (TileHex spec_BIOME_COLORS
      \<lparr>tile_x = 4, tile_y = 4, biome = ''lava''\<rparr> (1 / 2) 8 False) = Undefined"
  by (simp add: TileHex_def spec_BIOME_COLORS_def property_def Object_prototype_properties_def)

text \<open>
  Claim C3, amended. For every tile whose biome is not a key of \<^verbatim>\<open>BIOME_COLORS\<close>, no
  fallback colour is substituted. The value handed to the material is \<^verbatim>\<open>'#ffffff'\<close> when
  the tile is selected, and otherwise what the property read yields: the member of
  \<^verbatim>\<open>Object.prototype\<close> of that name when the biome is such a name (\<^verbatim>\<open>'constructor'\<close>, say),
  and \<^verbatim>\<open>undefined\<close> for every other biome; so, unless the tile is selected, never a
  colour string. The mesh has the position and the height of any other tile's, and is
  emitted under the same condition, an elevation of at least 0.08.
\<close>

theorem TileHex_unknown_biome:
  assumes "biome t \<notin> fst ` set BIOME_COLORS"
  shows "material_color (TileHex BIOME_COLORS t elevation gridSize sel)
           = (if sel then Str ''#ffffff''
              else if biome t \<in> set Object_prototype_properties then Inherited (biome t)
              else Undefined)
    \<and> (\<not> sel \<longrightarrow> (\<forall>c. material_color (TileHex BIOME_COLORS t elevation gridSize sel) \<noteq> Str c))
    \<and> mesh_position (TileHex BIOME_COLORS t elevation gridSize sel)
        = (of_int (tile_x t) - (of_int gridSize / 2 - 0.5), (0.1 + elevation * 1.5) / 2,
           of_int (tile_y t) - (of_int gridSize / 2 - 0.5))
    \<and> geometry_height (TileHex BIOME_COLORS t elevation gridSize sel) = 0.1 + elevation * 1.5
    \<and> (Island_tile BIOME_COLORS gridSize elevations selectedTile t \<noteq> None
         \<longleftrightarrow> 0.08 \<le> elevationOf elevations t)"
  using property_not_own [OF assms]
  by (auto simp add: TileHex_def Island_tile_def Let_def)

theorem TileHex_unknown_biome_witness:
  "''lava'' \<notin> fst ` set spec_BIOME_COLORS
   \<and> ''constructor'' \<notin> fst ` set spec_BIOME_COLORS
   \<and> material_color (TileHex spec_BIOME_COLORS
        \<lparr>tile_x = 4, tile_y = 4, biome = ''lava''\<rparr> (1 / 2) 8 True) = Str ''#ffffff''
   \<and> material_color (TileHex spec_BIOME_COLORS
        \<lparr>tile_x = 4, tile_y = 4, biome = ''lava''\<rparr> (1 / 2) 8 False) = Undefined
   \<and> material_color (TileHex spec_BIOME_COLORS
        \<lparr>tile_x = 4, tile_y = 4, biome = ''constructor''\<rparr> (1 / 2) 8 False)
       = Inherited ''constructor''
   \<and> geometry_height (TileHex spec_BIOME_COLORS
        \<lparr>tile_x = 4, tile_y = 4, biome = ''lava''\<rparr> (1 / 2) 8 True) = 17 / 20
   \<and> Island_tile spec_BIOME_COLORS 8 [(4, 4) \<mapsto> Some (1 / 2)] None
        \<lparr>tile_x = 4, tile_y = 4, biome = ''lava''\<rparr> \<noteq> None"
proof -
  have l: "biome \<lparr>tile_x = 4, tile_y = 4, biome = ''lava''\<rparr> \<notin> fst ` set spec_BIOME_COLORS"
    by (simp add: spec_BIOME_COLORS_def)
  have c: "biome \<lparr>tile_x = 4, tile_y = 4, biome = ''constructor''\<rparr> \<notin> fst ` set spec_BIOME_COLORS"
    by (simp add: spec_BIOME_COLORS_def)
  show ?thesis
    using l c
      TileHex_unknown_biome [where BIOME_COLORS = spec_BIOME_COLORS
        and t = "\<lparr>tile_x = 4, tile_y = 4, biome = ''lava''\<rparr>" and elevation = "1 / 2"
        and gridSize = 8 and sel = True and elevations = "[(4, 4) \<mapsto> Some (1 / 2)]"
        and selectedTile = None]
      TileHex_unknown_biome [where BIOME_COLORS = spec_BIOME_COLORS
        and t = "\<lparr>tile_x = 4, tile_y = 4, biome = ''lava''\<rparr>" and elevation = "1 / 2"
        and gridSize = 8 and sel = False and elevations = "[(4, 4) \<mapsto> Some (1 / 2)]"
        and selectedTile = None]
      TileHex_unknown_biome [where BIOME_COLORS = spec_BIOME_COLORS
        and t = "\<lparr>tile_x = 4, tile_y = 4, biome = ''constructor''\<rparr>" and elevation = "1 / 2"
        and gridSize = 8 and sel = False and elevations = "[(4, 4) \<mapsto> Some (1 / 2)]"
        and selectedTile = None]
    by (simp add: elevationOf_def Object_prototype_properties_def)
qed

lemma props_tile_below:
  "elevationOf elevations t < 0.15 \<Longrightarrow> props_tile gridSize elevations random t st = st"
  by (simp add: props_tile_def Let_def split: prod.splits)

lemma props_tile_mountain:
  "\<not> elevationOf elevations t < 0.15 \<Longrightarrow> biome t = ''mountain'' \<Longrightarrow>
     fst (props_tile gridSize elevations random t (items, k)) \<noteq> items"
  by (simp add: props_tile_def Let_def)

lemma push_trees_grows:
  "0 < n \<Longrightarrow> fst (push_trees random bx bh bz n (items, k)) \<noteq> items"
proof -
  have len: "length items + n \<le> length (fst (push_trees random bx bh bz n (items, k)))"
    for n items k
  proof (induction n arbitrary: items k)
    case 0
    then show ?case by simp
  next
    case (Suc n)
    from Suc [of "items @ [_]" "k + 3"] show ?case by simp
  qed
  assume "0 < n"
  with len [of items n k] show ?thesis by auto
qed

lemma props_tile_forest:
  assumes "\<not> elevationOf elevations t < 0.15" "biome t = ''forest''" "0 \<le> random k"
  shows "fst (props_tile gridSize elevations random t (items, k)) \<noteq> items"
proof -
  have "0 \<le> \<lfloor>random k * 2\<rfloor>" using assms(3) by simp
  then have "0 < 1 + \<lfloor>random k * 2\<rfloor>" by linarith
  then have "0 < nat (1 + \<lfloor>random k * 2\<rfloor>)" by (simp only: zero_less_nat_eq)
  then show ?thesis
    using assms(1,2) by (simp add: props_tile_def Let_def push_trees_grows)
qed

lemma props_tile_grassland:
  "\<not> elevationOf elevations t < 0.15 \<Longrightarrow> biome t = ''grassland'' \<Longrightarrow> random k > 0.7 \<Longrightarrow>
     fst (props_tile gridSize elevations random t (items, k)) \<noteq> items"
  by (simp add: props_tile_def Let_def)

text \<open>
  Claim C4. For every tile, a hexagon mesh instance is emitted if and only if its
  elevation is at least 0.08, and the tile is decoration-eligible if and only if its
  elevation is at least 0.15: below 0.15 the decoration callback leaves the list and
  the random sequence as they were, whatever the biome, and from 0.15 on it decorates,
  so that a mountain tile gets a decoration exactly when its elevation is at least 0.15,
  and so do a forest tile and a grassland tile whose draw exceeds 0.7. Every decorated
  tile is therefore also visible, and not the other way round: a mountain tile can be
  visible and get no decoration.
\<close>

theorem visible_iff_eligible_iff:
  "(Island_tile BIOME_COLORS gridSize elevations selectedTile t \<noteq> None
      \<longleftrightarrow> 0.08 \<le> elevationOf elevations t)
   \<and> (decorationEligible elevations t \<longleftrightarrow> 0.15 \<le> elevationOf elevations t)
   \<and> (elevationOf elevations t < 0.15
        \<longrightarrow> props_tile gridSize elevations random t (items, k) = (items, k))
   \<and> (biome t = ''mountain'' \<longrightarrow>
        (fst (props_tile gridSize elevations random t (items, k)) \<noteq> items
           \<longleftrightarrow> 0.15 \<le> elevationOf elevations t))
   \<and> (biome t = ''forest'' \<and> 0 \<le> random k \<longrightarrow>
        (fst (props_tile gridSize elevations random t (items, k)) \<noteq> items
           \<longleftrightarrow> 0.15 \<le> elevationOf elevations t))
   \<and> (biome t = ''grassland'' \<and> random k > 0.7 \<longrightarrow>
        (fst (props_tile gridSize elevations random t (items, k)) \<noteq> items
           \<longleftrightarrow> 0.15 \<le> elevationOf elevations t))
   \<and> (fst (props_tile gridSize elevations random t (items, k)) \<noteq> items
        \<longrightarrow> 0.15 \<le> elevationOf elevations t
            \<and> Island_tile BIOME_COLORS gridSize elevations selectedTile t \<noteq> None)
   \<and> (0.15 \<le> elevationOf elevations t
        \<longrightarrow> Island_tile BIOME_COLORS gridSize elevations selectedTile t \<noteq> None)
   \<and> (\<exists>elevations' t'. biome t' = ''mountain''
         \<and> Island_tile BIOME_COLORS gridSize elevations' selectedTile t' \<noteq> None
         \<and> props_tile gridSize elevations' random t' (items, k) = (items, k))"
proof -
  let ?e = "elevationOf elevations t"
  let ?out = "fst (props_tile gridSize elevations random t (items, k))"
  have vis: "Island_tile BIOME_COLORS gridSize elevations selectedTile t \<noteq> None
      \<longleftrightarrow> 0.08 \<le> ?e"
    by (auto simp add: Island_tile_def Let_def)
  have elig: "decorationEligible elevations t \<longleftrightarrow> 0.15 \<le> ?e"
    by (auto simp add: decorationEligible_def)
  have below: "?e < 0.15 \<Longrightarrow> props_tile gridSize elevations random t (items, k) = (items, k)"
    by (rule props_tile_below)
  have only: "?out \<noteq> items \<Longrightarrow> 0.15 \<le> ?e"
    using below by (cases "?e < 0.15") simp_all
  have mountain: "biome t = ''mountain'' \<Longrightarrow> ?out \<noteq> items \<longleftrightarrow> 0.15 \<le> ?e"
    using only props_tile_mountain [of elevations t gridSize random items k] by auto
  have forest: "biome t = ''forest'' \<Longrightarrow> 0 \<le> random k \<Longrightarrow> ?out \<noteq> items \<longleftrightarrow> 0.15 \<le> ?e"
    using only props_tile_forest [of elevations t random k gridSize items] by auto
  have grassland: "biome t = ''grassland'' \<Longrightarrow> random k > 0.7 \<Longrightarrow> ?out \<noteq> items \<longleftrightarrow> 0.15 \<le> ?e"
    using only props_tile_grassland [of elevations t random k gridSize items] by auto
  have imp: "0.15 \<le> ?e \<Longrightarrow> Island_tile BIOME_COLORS gridSize elevations selectedTile t \<noteq> None"
    using vis by simp
  have "biome \<lparr>tile_x = 0, tile_y = 0, biome = ''mountain''\<rparr> = ''mountain''
        \<and> Island_tile BIOME_COLORS gridSize [(0, 0) \<mapsto> Some (1 / 10)] selectedTile
          \<lparr>tile_x = 0, tile_y = 0, biome = ''mountain''\<rparr> \<noteq> None
        \<and> props_tile gridSize [(0, 0) \<mapsto> Some (1 / 10)] random
            \<lparr>tile_x = 0, tile_y = 0, biome = ''mountain''\<rparr> (items, k) = (items, k)"
    by (simp add: Island_tile_def props_tile_def elevationOf_def)
  then have ex: "\<exists>elevations' t'. biome t' = ''mountain''
         \<and> Island_tile BIOME_COLORS gridSize elevations' selectedTile t' \<noteq> None
         \<and> props_tile gridSize elevations' random t' (items, k) = (items, k)"
    by blast
  from vis elig below only mountain forest grassland imp ex show ?thesis
    by blast
qed

theorem visible_iff_eligible_iff_witness:
  "biome \<lparr>tile_x = 4, tile_y = 4, biome = ''mountain''\<rparr> = ''mountain''
   \<and> fst (props_tile 8 [(4, 4) \<mapsto> Some (1 / 2)] (constant_random (1 / 2))
        \<lparr>tile_x = 4, tile_y = 4, biome = ''mountain''\<rparr> ([], 0)) \<noteq> []
   \<and> (15 / 100 :: real) \<le> elevationOf [(4, 4) \<mapsto> Some (1 / 2)]
        \<lparr>tile_x = 4, tile_y = 4, biome = ''mountain''\<rparr>
   \<and> decorationEligible [(4, 4) \<mapsto> Some (1 / 2)] \<lparr>tile_x = 4, tile_y = 4, biome = ''mountain''\<rparr>
   \<and> Island_tile spec_BIOME_COLORS 8 [(4, 4) \<mapsto> Some (1 / 2)] None
        \<lparr>tile_x = 4, tile_y = 4, biome = ''mountain''\<rparr> \<noteq> None
   \<and> elevationOf [(1, 4) \<mapsto> Some (1 / 10)] \<lparr>tile_x = 1, tile_y = 4, biome = ''mountain''\<rparr>
        < 15 / 100
   \<and> Island_tile spec_BIOME_COLORS 8 [(1, 4) \<mapsto> Some (1 / 10)] None
        \<lparr>tile_x = 1, tile_y = 4, biome = ''mountain''\<rparr> \<noteq> None
   \<and> props_tile 8 [(1, 4) \<mapsto> Some (1 / 10)] (constant_random (1 / 2))
        \<lparr>tile_x = 1, tile_y = 4, biome = ''mountain''\<rparr> ([], 0) = ([], 0)
   \<and> Island_tile spec_BIOME_COLORS 8 [(0, 4) \<mapsto> Some (1 / 20)] None
        \<lparr>tile_x = 0, tile_y = 4, biome = ''water''\<rparr> = None"
proof -
  have e1: "elevationOf [(4, 4) \<mapsto> Some (1 / 2)] \<lparr>tile_x = 4, tile_y = 4, biome = ''mountain''\<rparr>
              = 1 / 2"
    by (simp add: elevationOf_def)
  have e2: "elevationOf [(1, 4) \<mapsto> Some (1 / 10)] \<lparr>tile_x = 1, tile_y = 4, biome = ''mountain''\<rparr>
              = 1 / 10"
    by (simp add: elevationOf_def)
  have e3: "elevationOf [(0, 4) \<mapsto> Some (1 / 20)] \<lparr>tile_x = 0, tile_y = 4, biome = ''water''\<rparr>
              = 1 / 20"
    by (simp add: elevationOf_def)
  show ?thesis
    using visible_iff_eligible_iff [of spec_BIOME_COLORS 8 "[(4, 4) \<mapsto> Some (1 / 2)]" None
        "\<lparr>tile_x = 4, tile_y = 4, biome = ''mountain''\<rparr>" "constant_random (1 / 2)" "[]" 0]
      visible_iff_eligible_iff [of spec_BIOME_COLORS 8 "[(1, 4) \<mapsto> Some (1 / 10)]" None
        "\<lparr>tile_x = 1, tile_y = 4, biome = ''mountain''\<rparr>" "constant_random (1 / 2)" "[]" 0]
      visible_iff_eligible_iff [of spec_BIOME_COLORS 8 "[(0, 4) \<mapsto> Some (1 / 20)]" None
        "\<lparr>tile_x = 0, tile_y = 4, biome = ''water''\<rparr>" "constant_random (1 / 2)" "[]" 0]
    unfolding e1 e2 e3 by simp
qed

subsection \<open>DecorationPlacer\<close>

lemma push_trees_fst:
  "\<exists>ys. fst (push_trees random bx bh bz n (items, k)) = items @ ys \<and> length ys = n
        \<and> (\<forall>p \<in> set ys. item_type p = Tree \<and> fst (snd (item_position p)) = bh)"
proof (induction n arbitrary: items k)
  case 0
  then show ?case by simp
next
  case (Suc n)
  let ?new = "\<lparr>item_type = Tree,
                  item_position = (bx + (random k - 0.5) * 0.4, bh, bz + (random (k + 1) - 0.5) * 0.4),
                  item_scale = 0.7 + random (k + 2) * 0.4\<rparr>"
  from Suc.IH [of "items @ [?new]" "k + 3"]
  obtain ys where ys: "fst (push_trees random bx bh bz n (items @ [?new], k + 3)) = (items @ [?new]) @ ys"
    "length ys = n" "\<forall>p \<in> set ys. item_type p = Tree \<and> fst (snd (item_position p)) = bh"
    by blast
  show ?case
    by (rule exI [of _ "?new # ys"]) (use ys in simp)
qed

lemma push_trees_nil:
  "length (fst (push_trees random bx bh bz n ([], k))) = n
   \<and> (\<forall>p \<in> set (fst (push_trees random bx bh bz n ([], k))).
         item_type p = Tree \<and> fst (snd (item_position p)) = bh)"
  using push_trees_fst [of random bx bh bz n "[]" k] by auto

lemma push_trees_append:
  "fst (push_trees random bx bh bz n (items, k))
     = items @ fst (push_trees random bx bh bz n ([], k))"
proof (induction n arbitrary: items k)
  case 0
  then show ?case by simp
next
  case (Suc n)
  show ?case
    by (simp add: Suc.IH [of "items @ _"] Suc.IH [of "[_]"])
qed

lemma props_tile_append:
  "fst (props_tile gridSize elevations random t (items, k))
     = items @ emitted gridSize elevations random t k"
  by (simp add: emitted_def props_tile_def decorationEligible_def Let_def push_trees_append [of _ _ _ _ _ items])

lemma tree_count:
  fixes r :: real
  assumes "0 \<le> r" "r < 1"
  shows "nat (1 + \<lfloor>r * 2\<rfloor>) = 1 \<or> nat (1 + \<lfloor>r * 2\<rfloor>) = 2"
proof -
  have "0 \<le> \<lfloor>r * 2\<rfloor>" using assms by simp
  moreover have "\<lfloor>r * 2\<rfloor> < 2" using assms by (simp add: floor_less_iff)
  ultimately show ?thesis by linarith
qed


text \<open>
  Claim C7. For every decoration-eligible tile and every sequence of values drawn
  from \<^verbatim>\<open>random()\<close> in \<open>[0, 1)\<close>, the callback appends to the items pushed so far:
  for a forest tile, \<open>1 + floor (r * 2)\<close> tree instances, which is 1 or 2, \<open>r\<close> being the
  first value drawn; for a mountain tile, exactly one peak instance at the tile centre;
  for a grassland tile, one rock instance when the first value drawn exceeds 0.7 and
  nothing otherwise (for a uniform draw from \<open>[0, 1)\<close> this is the interval \<open>(0.7, 1)\<close>,
  of length 0.3); for a tile of any other biome, nothing.
\<close>

theorem decorations_by_biome:
  assumes "decorationEligible elevations t"
    and "\<forall>i. 0 \<le> random i \<and> random i < 1"
  shows "fst (props_tile gridSize elevations random t (items, k))
           = items @ emitted gridSize elevations random t k
    \<and> (biome t = ''forest'' \<longrightarrow>
          length (emitted gridSize elevations random t k) = nat (1 + \<lfloor>random k * 2\<rfloor>)
          \<and> 1 \<le> length (emitted gridSize elevations random t k)
          \<and> length (emitted gridSize elevations random t k) \<le> 2
          \<and> (\<forall>p \<in> set (emitted gridSize elevations random t k). item_type p = Tree))
    \<and> (biome t = ''mountain'' \<longrightarrow>
          emitted gridSize elevations random t k
            = [\<lparr>item_type = Mountain,
                item_position = (of_int (tile_x t) - (of_int gridSize / 2 - 0.5),
                                 0.1 + elevationOf elevations t * 1.5,
                                 of_int (tile_y t) - (of_int gridSize / 2 - 0.5)),
                item_scale = 0.8 + random k * 0.4\<rparr>])
    \<and> (biome t = ''grassland'' \<longrightarrow>
          (random k > 0.7 \<longrightarrow>
             length (emitted gridSize elevations random t k) = 1
             \<and> (\<forall>p \<in> set (emitted gridSize elevations random t k). item_type p = Rock))
          \<and> (\<not> random k > 0.7 \<longrightarrow> emitted gridSize elevations random t k = [])
          \<and> (emitted gridSize elevations random t k \<noteq> [] \<longleftrightarrow> random k \<in> {0.7 <..< 1}))
    \<and> (biome t \<noteq> ''forest'' \<and> biome t \<noteq> ''mountain'' \<and> biome t \<noteq> ''grassland'' \<longrightarrow>
          emitted gridSize elevations random t k = [])"
proof -
  have r: "0 \<le> random k" "random k < 1" using assms(2) by simp_all
  have forest: "biome t = ''forest'' \<Longrightarrow>
      emitted gridSize elevations random t k
        = fst (push_trees random (of_int (tile_x t) - (of_int gridSize / 2 - 0.5))
                 (0.1 + elevationOf elevations t * 1.5)
                 (of_int (tile_y t) - (of_int gridSize / 2 - 0.5))
                 (nat (1 + \<lfloor>random k * 2\<rfloor>)) ([], k + 1))"
    using assms(1) by (simp add: emitted_def props_tile_def decorationEligible_def Let_def)
  have others: "biome t \<noteq> ''forest'' \<Longrightarrow>
      emitted gridSize elevations random t k
        = (if biome t = ''mountain'' then
             [\<lparr>item_type = Mountain,
               item_position = (of_int (tile_x t) - (of_int gridSize / 2 - 0.5),
                                0.1 + elevationOf elevations t * 1.5,
                                of_int (tile_y t) - (of_int gridSize / 2 - 0.5)),
               item_scale = 0.8 + random k * 0.4\<rparr>]
           else if biome t = ''grassland'' \<and> random k > 0.7 then
             [\<lparr>item_type = Rock,
               item_position = (of_int (tile_x t) - (of_int gridSize / 2 - 0.5)
                                  + (random (k + 1) - 0.5) * 0.3,
                                0.1 + elevationOf elevations t * 1.5,
                                of_int (tile_y t) - (of_int gridSize / 2 - 0.5)
                                  + (random (k + 2) - 0.5) * 0.3),
               item_scale = 0.5 + random (k + 3) * 0.5\<rparr>]
           else [])"
    using assms(1) by (simp add: emitted_def props_tile_def decorationEligible_def Let_def)
  have c1: "fst (props_tile gridSize elevations random t (items, k))
           = items @ emitted gridSize elevations random t k"
    by (rule props_tile_append)
  have c2: "biome t = ''forest'' \<longrightarrow>
          length (emitted gridSize elevations random t k) = nat (1 + \<lfloor>random k * 2\<rfloor>)
          \<and> 1 \<le> length (emitted gridSize elevations random t k)
          \<and> length (emitted gridSize elevations random t k) \<le> 2
          \<and> (\<forall>p \<in> set (emitted gridSize elevations random t k). item_type p = Tree)"
    using forest push_trees_nil tree_count [OF r] by auto
  have c3: "biome t = ''mountain'' \<longrightarrow>
          emitted gridSize elevations random t k
            = [\<lparr>item_type = Mountain,
                item_position = (of_int (tile_x t) - (of_int gridSize / 2 - 0.5),
                                 0.1 + elevationOf elevations t * 1.5,
                                 of_int (tile_y t) - (of_int gridSize / 2 - 0.5)),
                item_scale = 0.8 + random k * 0.4\<rparr>]"
    using others by simp
  have c4: "biome t = ''grassland'' \<longrightarrow>
          (random k > 0.7 \<longrightarrow>
             length (emitted gridSize elevations random t k) = 1
             \<and> (\<forall>p \<in> set (emitted gridSize elevations random t k). item_type p = Rock))
          \<and> (\<not> random k > 0.7 \<longrightarrow> emitted gridSize elevations random t k = [])
          \<and> (emitted gridSize elevations random t k \<noteq> [] \<longleftrightarrow> random k \<in> {0.7 <..< 1})"
    using others r by simp
  have c5: "biome t \<noteq> ''forest'' \<and> biome t \<noteq> ''mountain'' \<and> biome t \<noteq> ''grassland'' \<longrightarrow>
          emitted gridSize elevations random t k = []"
    using others by simp
  from c1 c2 c3 c4 c5 show ?thesis by blast
qed

theorem decorations_by_biome_witness:
  "decorationEligible [(4, 4) \<mapsto> Some (1 / 2)] \<lparr>tile_x = 4, tile_y = 4, biome = ''forest''\<rparr>
   \<and> 0 \<le> constant_random (1 / 2) 0 \<and> constant_random (1 / 2) 0 < 1
   \<and> length (emitted 8 [(4, 4) \<mapsto> Some (1 / 2)] (constant_random (1 / 2))
               \<lparr>tile_x = 4, tile_y = 4, biome = ''forest''\<rparr> 0) = 2
   \<and> length (emitted 8 [(4, 4) \<mapsto> Some (1 / 2)] (constant_random (1 / 4))
               \<lparr>tile_x = 4, tile_y = 4, biome = ''forest''\<rparr> 0) = 1
   \<and> emitted 8 [(4, 4) \<mapsto> Some (1 / 2)] (constant_random (1 / 2))
        \<lparr>tile_x = 4, tile_y = 4, biome = ''mountain''\<rparr> 0
       = [\<lparr>item_type = Mountain, item_position = (1 / 2, 17 / 20, 1 / 2), item_scale = 1\<rparr>]
   \<and> length (emitted 8 [(4, 4) \<mapsto> Some (1 / 2)] (constant_random (9 / 10))
               \<lparr>tile_x = 4, tile_y = 4, biome = ''grassland''\<rparr> 0) = 1
   \<and> emitted 8 [(4, 4) \<mapsto> Some (1 / 2)] (constant_random (1 / 2))
        \<lparr>tile_x = 4, tile_y = 4, biome = ''grassland''\<rparr> 0 = []
   \<and> emitted 8 [(4, 4) \<mapsto> Some (1 / 2)] (constant_random (1 / 2))
        \<lparr>tile_x = 4, tile_y = 4, biome = ''beach''\<rparr> 0 = []"
proof -
  let ?e = "[(4, 4) \<mapsto> Some (1 / 2 :: real)]"
  have e: "decorationEligible ?e \<lparr>tile_x = 4, tile_y = 4, biome = b\<rparr>" for b
    by (simp add: decorationEligible_def elevationOf_def)
  have r: "\<forall>i. 0 \<le> constant_random c i \<and> constant_random c i < 1" if "0 \<le> c" "c < 1" for c
    using that by (simp add: constant_random_def)
  have f2: "nat (1 + \<lfloor>constant_random (1 / 2) 0 * 2\<rfloor>) = 2"
    by (simp add: constant_random_def)
  have f1: "nat (1 + \<lfloor>constant_random (1 / 4) 0 * 2\<rfloor>) = 1"
    by (simp add: constant_random_def)
  show ?thesis
    using e [of "''forest''"] f1 f2
      decorations_by_biome [OF e [of "''forest''"] r [of "1 / 2"], of 8 "[]" 0]
      decorations_by_biome [OF e [of "''forest''"] r [of "1 / 4"], of 8 "[]" 0]
      decorations_by_biome [OF e [of "''mountain''"] r [of "1 / 2"], of 8 "[]" 0]
      decorations_by_biome [OF e [of "''grassland''"] r [of "9 / 10"], of 8 "[]" 0]
      decorations_by_biome [OF e [of "''grassland''"] r [of "1 / 2"], of 8 "[]" 0]
      decorations_by_biome [OF e [of "''beach''"] r [of "1 / 2"], of 8 "[]" 0]
    by (simp add: constant_random_def elevationOf_def)
qed











subsection \<open>End-to-end scenario\<close>

text \<open>
  Claim C9. For grid size 8 and a single tile at \<open>(4, 4)\<close> with biome mountain and
  elevation 0.5, the renderer emits exactly one mesh instance, positioned at
  \<open>(0.5, 0.425, 0.5)\<close> with extruded height 0.85, and the decoration placer emits exactly
  one peak decoration, at height 0.85. The elevation 0.5 is the one the elevation model
  gives this tile when the noise sample is \<open>-1\<close>.
\<close>

theorem single_mountain_tile:
  "map (map_option (\<lambda>m. (mesh_position m, geometry_height m)))
     (Island_tiles BIOME_COLORS [\<lparr>tile_x = 4, tile_y = 4, biome = ''mountain''\<rparr>] 8
        [(4, 4) \<mapsto> Some 0.5] selectedTile)
     = [Some ((0.5, 0.425, 0.5), 0.85)]
   \<and> props [\<lparr>tile_x = 4, tile_y = 4, biome = ''mountain''\<rparr>] 8 [(4, 4) \<mapsto> Some 0.5] random
     = [\<lparr>item_type = Mountain, item_position = (0.5, 0.85, 0.5),
         item_scale = 0.8 + random 0 * 0.4\<rparr>]
   \<and> elevationOf (tileElevations [\<lparr>tile_x = 4, tile_y = 4, biome = ''mountain''\<rparr>] 8
        (constant_noise (- 1))) \<lparr>tile_x = 4, tile_y = 4, biome = ''mountain''\<rparr> = 0.5"
  by (simp add: Island_tiles_def Island_tile_def TileHex_def props_def props_tile_def
      decorationEligible_def elevationOf_def tileElevations_def getIslandElevation_def
      islandMask_def constant_noise_def Let_def)

subsection \<open>WaterShader\<close>

lemma three_waves_bounds:
  fixes a b c :: real
  assumes "-1 \<le> a" "a \<le> 1" "-1 \<le> b" "b \<le> 1" "-1 \<le> c" "c \<le> 1"
  shows "- 0.12 \<le> a * 0.05 + b * 0.03 + c * 0.04"
    and "a * 0.05 + b * 0.03 + c * 0.04 \<le> 0.12"
    and "a * 0.05 + b * 0.03 + c * 0.04 = 0.12 \<Longrightarrow> a = 1 \<and> b = 1 \<and> c = 1"
  using assms by simp_all

lemma displacement_health:
  "displacement WaterMaterial_vertex x y t
     = sin (x * 2 + t * 0.5) * 0.05 + sin (y * 3 + t * 0.7) * 0.03
       + sin ((x + y) * 1.5 + t * 0.3) * 0.04"
  by (simp add: displacement_def WaterMaterial_vertex_def)

lemma displacement_dark:
  "displacement WaterMaterial_dark_vertex x y t
     = sin (x * 2 + t * 0.5) * 0.05 + sin (y * 3 + t * 0.7) * 0.03
       + sin ((x + y) * 1.5 + t * 0.3) * 0.04"
  by (simp add: displacement_def WaterMaterial_dark_vertex_def)

text \<open>
  Claim C10. In both water shader variants, for every vertex position \<open>(x, y)\<close> and
  every time \<open>t\<close>, the displacement is the sum
  \<open>sin (x * 2 + t * 0.5) * 0.05 + sin (y * 3 + t * 0.7) * 0.03 + sin ((x + y) * 1.5 + t * 0.3) * 0.04\<close>
  and lies in \<open>[-0.12, 0.12]\<close>. The value 0.12, the upper edge of the fragment stage's
  foam band, is reached only when all three sines are 1 at once, and the displacement at
  \<open>x = y = 0\<close>, \<open>t = 0\<close> is exactly 0.
\<close>

theorem water_displacement_bounds:
  assumes "vertex = WaterMaterial_vertex \<or> vertex = WaterMaterial_dark_vertex"
  shows "displacement vertex x y t
           = sin (x * 2 + t * 0.5) * 0.05 + sin (y * 3 + t * 0.7) * 0.03
             + sin ((x + y) * 1.5 + t * 0.3) * 0.04
         \<and> - 0.12 \<le> displacement vertex x y t
         \<and> displacement vertex x y t \<le> 0.12
         \<and> (displacement vertex x y t = 0.12 \<longrightarrow>
              sin (x * 2 + t * 0.5) = 1 \<and> sin (y * 3 + t * 0.7) = 1
              \<and> sin ((x + y) * 1.5 + t * 0.3) = 1)
         \<and> displacement vertex 0 0 0 = 0"
proof -
  let ?a = "sin (x * 2 + t * 0.5)" and ?b = "sin (y * 3 + t * 0.7)"
    and ?c = "sin ((x + y) * 1.5 + t * 0.3)"
  have eq: "displacement vertex x y t = ?a * 0.05 + ?b * 0.03 + ?c * 0.04"
    using assms displacement_health displacement_dark by blast
  have zero: "displacement vertex 0 0 0 = 0"
    using assms by (auto simp add: displacement_health displacement_dark)
  have r: "-1 \<le> ?a" "?a \<le> 1" "-1 \<le> ?b" "?b \<le> 1" "-1 \<le> ?c" "?c \<le> 1"
    by simp_all
  show ?thesis
    using three_waves_bounds [OF r] eq zero by simp
qed

text \<open>
  The bound is attained: at \<open>x = 3 * pi / 17\<close>, \<open>y = 5 * pi / 51\<close>, \<open>t = 5 * pi / 17\<close> the
  three phases are all \<open>pi / 2\<close>.
\<close>

theorem water_displacement_bounds_witness:
  "displacement WaterMaterial_vertex (3 * pi / 17) (5 * pi / 51) (5 * pi / 17) = 0.12
   \<and> displacement WaterMaterial_dark_vertex (3 * pi / 17) (5 * pi / 51) (5 * pi / 17) = 0.12
   \<and> sin (3 * pi / 17 * 2 + 5 * pi / 17 * 0.5) = 1
   \<and> sin (5 * pi / 51 * 3 + 5 * pi / 17 * 0.7) = 1
   \<and> sin ((3 * pi / 17 + 5 * pi / 51) * 1.5 + 5 * pi / 17 * 0.3) = 1
   \<and> displacement WaterMaterial_vertex 0 0 0 = 0
   \<and> displacement WaterMaterial_dark_vertex 0 0 0 = 0"
proof -
  have a: "3 * pi / 17 * 2 + 5 * pi / 17 * 0.5 = pi / 2" by simp
  have b: "5 * pi / 51 * 3 + 5 * pi / 17 * 0.7 = pi / 2" by simp
  have c: "(3 * pi / 17 + 5 * pi / 51) * 1.5 + 5 * pi / 17 * 0.3 = pi / 2" by simp
  have d: "displacement WaterMaterial_vertex (3 * pi / 17) (5 * pi / 51) (5 * pi / 17) = 0.12"
    unfolding displacement_health a b c by simp
  have e: "displacement WaterMaterial_dark_vertex (3 * pi / 17) (5 * pi / 51) (5 * pi / 17) = 0.12"
    unfolding displacement_dark a b c by simp
  show ?thesis
    using water_displacement_bounds [of WaterMaterial_vertex "3 * pi / 17" "5 * pi / 51" "5 * pi / 17"]
      water_displacement_bounds [of WaterMaterial_dark_vertex "3 * pi / 17" "5 * pi / 51" "5 * pi / 17"]
      d e
    by simp
qed

end
